theory Spec2Isabelle
  imports Main "HOL-Library.Word"
begin

section \<open>JavaScript values used by the helpers\<close>

text \<open>
  The helpers of \<^verbatim>\<open>src/helpers\<close> work on JavaScript strings and on optional object
  properties. A string is a \<^typ>\<open>string\<close>; an optional property of type string is a
  \<^typ>\<open>string option\<close>, with \<open>None\<close> for a property that is missing or \<^verbatim>\<open>undefined\<close>.

  A condition \<^verbatim>\<open>x ? a : b\<close> on such a property tests truthiness: \<^verbatim>\<open>undefined\<close> and the
  empty string are falsy, every other string is truthy.
\<close>

definition truthy :: "string option \<Rightarrow> bool" where
  "truthy s = (case s of None \<Rightarrow> False | Some v \<Rightarrow> v \<noteq> [])"

text \<open>\<^verbatim>\<open>x || d\<close> on an optional string \<open>x\<close> and a string \<open>d\<close>.\<close>

definition orElse :: "string option \<Rightarrow> string \<Rightarrow> string" where
  "orElse s d = (case s of None \<Rightarrow> d | Some v \<Rightarrow> (if v \<noteq> [] then v else d))"

text \<open>
  \<^verbatim>\<open>subject.replaceAll(pat, rep)\<close> for a string pattern and a replacement without
  \<^verbatim>\<open>$\<close> patterns: every occurrence of \<open>pat\<close>, found from left to right without overlap,
  is replaced by \<open>rep\<close>; the empty pattern matches between any two characters.
\<close>

function replaceAll :: "string \<Rightarrow> string \<Rightarrow> string \<Rightarrow> string" where
  "replaceAll pat rep [] = (if pat = [] then rep else [])"
| "replaceAll pat rep (c # cs) =
     (if pat = [] then rep @ c # replaceAll pat rep cs
      else if take (length pat) (c # cs) = pat
        then rep @ replaceAll pat rep (drop (length pat) (c # cs))
        else c # replaceAll pat rep cs)"
  by pat_completeness auto
termination
  by (relation "measure (\<lambda>(pat, rep, s). length s)") auto


section \<open>\<^verbatim>\<open>src/helpers/env-variables.ts\<close>: rendering\<close>

text \<open>
  \<^verbatim>\<open>type EnvVar = { name?: string; description?: string; value?: string }\<close>
\<close>

record EnvVar =
  name :: "string option"
  description :: "string option"
  "value" :: "string option"

text \<open>
  The callback of the \<^verbatim>\<open>reduce\<close> in \<^verbatim>\<open>renderEnvVar\<close>: the text rendered so far, followed
  by the comment block of the description and by the assignment or placeholder line of
  the name. The template literals read \<^verbatim>\<open>env.description\<close>, \<^verbatim>\<open>env.name\<close> and
  \<^verbatim>\<open>env.value\<close> only in the branch where the property is truthy.
\<close>

definition renderStep :: "string \<Rightarrow> EnvVar \<Rightarrow> string" where
  "renderStep prev env =
     prev @
     (if truthy (description env)
        then ''# '' @ replaceAll ''\<newline>'' ''\<newline># '' (the (description env)) @ ''\<newline>''
        else '''') @
     (if truthy (name env)
        then (if truthy (value env)
                then the (name env) @ ''='' @ the (value env) @ ''\<newline>\<newline>''
                else ''# '' @ the (name env) @ ''=\<newline>\<newline>'')
        else '''')"

text \<open>\<^verbatim>\<open>envVars.reduce(callback, "")\<close> is a left fold from the empty string.\<close>

definition renderEnvVar :: "EnvVar list \<Rightarrow> string" where
  "renderEnvVar envVars = foldl renderStep '''' envVars"

text \<open>
  The lines of a text, in the words of the specification: the pieces between
  consecutive occurrences of the separator (\<^verbatim>\<open>text.split(sep)\<close> for a one-character
  separator). A text without separator is one line.
\<close>

fun splitOn :: "char \<Rightarrow> string \<Rightarrow> string list" where
  "splitOn sep [] = [[]]"
| "splitOn sep (c # cs) =
     (if c = sep then [] # splitOn sep cs
      else (case splitOn sep cs of
              [] \<Rightarrow> [[c]]
            | l # ls \<Rightarrow> (c # l) # ls))"


section \<open>\<^verbatim>\<open>src/helpers/env-variables.ts\<close>: the variables of the backend\<close>

text \<open>
  \<^verbatim>\<open>getVectorDBEnvs\<close>: a \<^verbatim>\<open>switch\<close> on the identifier of the vector database, a string at
  run time (the type \<^verbatim>\<open>TemplateVectorDB\<close> is declared in \<^verbatim>\<open>./types\<close>), with a
  \<^verbatim>\<open>default\<close> arm.
\<close>

definition getVectorDBEnvs :: "string \<Rightarrow> EnvVar list" where
  "getVectorDBEnvs vectorDb =
     (if vectorDb = ''mongo'' then
        [\<lparr>name = Some ''MONGO_URI'',
          description = Some ''For generating a connection URI, see https://docs.timescale.com/use-timescale/latest/services/create-a-service\<newline>The MongoDB connection URI.'',
          value = None\<rparr>,
         \<lparr>name = Some ''MONGODB_DATABASE'', description = None, value = None\<rparr>,
         \<lparr>name = Some ''MONGODB_VECTORS'', description = None, value = None\<rparr>,
         \<lparr>name = Some ''MONGODB_VECTOR_INDEX'', description = None, value = None\<rparr>]
      else if vectorDb = ''pg'' then
        [\<lparr>name = Some ''PG_CONNECTION_STRING'',
          description = Some ''For generating a connection URI, see https://docs.timescale.com/use-timescale/latest/services/create-a-service\<newline>The PostgreSQL connection string.'',
          value = None\<rparr>]
      else if vectorDb = ''pinecone'' then
        [\<lparr>name = Some ''PINECONE_API_KEY'',
          description = Some ''Configuration for Pinecone vector store\<newline>The Pinecone API key.'',
          value = None\<rparr>,
         \<lparr>name = Some ''PINECONE_ENVIRONMENT'', description = None, value = None\<rparr>,
         \<lparr>name = Some ''PINECONE_INDEX_NAME'', description = None, value = None\<rparr>]
      else if vectorDb = ''milvus'' then
        [\<lparr>name = Some ''MILVUS_ADDRESS'',
          description = Some ''The address of the Milvus server. Eg: http://localhost:19530'',
          value = Some ''http://localhost:19530''\<rparr>,
         \<lparr>name = Some ''MILVUS_COLLECTION'',
          description = Some ''The name of the Milvus collection to store the vectors.'',
          value = Some ''llamacollection''\<rparr>,
         \<lparr>name = Some ''MILVUS_USERNAME'',
          description = Some ''The username to access the Milvus server.'',
          value = None\<rparr>,
         \<lparr>name = Some ''MILVUS_PASSWORD'',
          description = Some ''The password to access the Milvus server.'',
          value = None\<rparr>]
      else [])"

text \<open>
  The options of \<^verbatim>\<open>createBackendEnvFile\<close>. The selectors \<^verbatim>\<open>vectorDb\<close> and \<^verbatim>\<open>framework\<close> are
  strings at run time; \<^verbatim>\<open>dataSources\<close> is carried and never read, so the type of its
  elements is left open; \<^verbatim>\<open>port\<close> is a JavaScript number, a value of a type \<open>'n\<close> that
  is left open as well.
\<close>

record ('d, 'n) BackendOpts =
  openAiKey :: "string option"
  llamaCloudKey :: "string option"
  vectorDb :: "string option"
  model :: "string option"
  embeddingModel :: "string option"
  framework :: "string option"
  dataSources :: "'d list option"
  port :: "'n option"

text \<open>
  The constant \<^verbatim>\<open>defaultEnvs\<close> of \<^verbatim>\<open>createBackendEnvFile\<close>: five descriptors filled from
  the options, then the descriptors of the vector database when one is selected. Two
  of the objects also carry \<^verbatim>\<open>render: true\<close>, a property that \<^verbatim>\<open>EnvVar\<close> does not have and
  that nothing reads.
\<close>

definition backend_defaultEnvs :: "('d, 'n) BackendOpts \<Rightarrow> EnvVar list" where
  "backend_defaultEnvs opts =
     [\<lparr>name = Some ''MODEL'',
       description = Some ''The name of LLM model to use.'',
       value = Some (orElse (model opts) ''gpt-3.5-turbo'')\<rparr>,
      \<lparr>name = Some ''TSI_API_KEY'',
       description = Some ''The T-Systems API key to use.'',
       value = openAiKey opts\<rparr>,
      \<lparr>name = Some ''TSI_API_BASE_URL'',
       description = Some ''The T-Systems API base URL.'',
       value = Some ''https://llm-server.llmhub.t-systems.net/v2''\<rparr>,
      \<lparr>name = Some ''TSI_EMBED_API_BASE_URL'',
       description = Some ''The T-Systems embedding API base URL.'',
       value = Some ''https://llm-server.llmhub.t-systems.net/v2''\<rparr>,
      \<lparr>name = Some ''LLAMA_CLOUD_API_KEY'',
       description = Some ''The Llama Cloud API key.'',
       value = llamaCloudKey opts\<rparr>] @
     (if truthy (vectorDb opts) then getVectorDBEnvs (the (vectorDb opts)) else [])"

text \<open>
  The variable \<^verbatim>\<open>envVars\<close> of \<^verbatim>\<open>createBackendEnvFile\<close> after the \<^verbatim>\<open>if\<close> on the framework.
  The object \<^verbatim>\<open>{}\<close> of the last branch is the descriptor without any property.
  \<^verbatim>\<open>Number.prototype.toString\<close>, which \<^verbatim>\<open>opts.port?.toString()\<close> calls, belongs to the
  language and is a parameter.
\<close>

definition backend_envVars :: "('n \<Rightarrow> string) \<Rightarrow> ('d, 'n) BackendOpts \<Rightarrow> EnvVar list" where
  "backend_envVars toString opts =
     (if framework opts = Some ''fastapi'' then
        backend_defaultEnvs opts @
        [\<lparr>name = Some ''APP_HOST'',
          description = Some ''The address to start the backend app.'',
          value = Some ''0.0.0.0''\<rparr>,
         \<lparr>name = Some ''APP_PORT'',
          description = Some ''The port to start the backend app.'',
          value = Some (orElse (map_option toString (port opts)) ''8000'')\<rparr>,
         \<lparr>name = Some ''EMBEDDING_MODEL'',
          description = Some ''Name of the embedding model to use.'',
          value = embeddingModel opts\<rparr>,
         \<lparr>name = Some ''EMBEDDING_DIM'',
          description = Some ''Dimension of the embedding model to use.'',
          value = None\<rparr>,
         \<lparr>name = Some ''LLM_TEMPERATURE'',
          description = Some ''Temperature for sampling from the model.'',
          value = None\<rparr>,
         \<lparr>name = Some ''LLM_MAX_TOKENS'',
          description = Some ''Maximum number of tokens to generate.'',
          value = None\<rparr>,
         \<lparr>name = Some ''TOP_K'',
          description = Some ''The number of similar embeddings to return when retrieving documents.'',
          value = Some ''3''\<rparr>,
         \<lparr>name = Some ''SYSTEM_PROMPT'',
          description = Some ''Custom system prompt.\<newline>Example:\<newline>SYSTEM_PROMPT=\"\<newline>We have provided context information below.\<newline>---------------------\<newline>{context_str}\<newline>---------------------\<newline>Given this information, please answer the question: {query_str}\<newline>\"'',
          value = None\<rparr>]
      else
        backend_defaultEnvs opts @
        [if framework opts = Some ''nextjs''
           then \<lparr>name = Some ''NEXT_PUBLIC_MODEL'',
                 description = Some ''The LLM model to use (hardcode to front-end artifact).'',
                 value = Some (orElse (model opts) ''gpt-3.5-turbo'')\<rparr>
           else \<lparr>name = None, description = None, value = None\<rparr>])"

section \<open>The world outside: paths, file system, console\<close>

text \<open>
  Errors: the \<^verbatim>\<open>TypeError\<close> that \<^verbatim>\<open>copy\<close> throws (the invalid argument of the
  specification, with its message), and the errors of the system calls, which the
  helpers pass on as they are.
\<close>

datatype error = TypeError string | SystemError string

text \<open>
  The functions of Node's \<^verbatim>\<open>path\<close> module that the helpers call. The module is not
  part of the repository, so the helpers take it as a parameter. \<^verbatim>\<open>path.join\<close> and
  \<^verbatim>\<open>path.resolve\<close> take any number of arguments: a list.
\<close>

record Path =
  path_dirname :: "string \<Rightarrow> string"
  path_basename :: "string \<Rightarrow> string"
  path_join :: "string list \<Rightarrow> string"
  path_resolve :: "string list \<Rightarrow> string"

text \<open>
  The calls that reach the file system and the console, on a world \<open>'w\<close>: \<^verbatim>\<open>glob\<close> of
  \<^verbatim>\<open>fast-glob\<close> with the patterns and the \<^verbatim>\<open>cwd\<close> option (the other options are the
  constants \<^verbatim>\<open>dot: true, absolute: false, stats: false\<close>), \<^verbatim>\<open>fs.promises.mkdir\<close> with
  \<^verbatim>\<open>recursive: true\<close>, \<^verbatim>\<open>fs.promises.copyFile\<close>, \<^verbatim>\<open>fs.writeFile\<close> and \<^verbatim>\<open>console.log\<close>.
  Each call returns the world after it; a call that can be rejected returns an error or
  its result.
\<close>

record 'w System =
  glob :: "string list \<Rightarrow> string option \<Rightarrow> 'w \<Rightarrow> (error + string list) \<times> 'w"
  fs_mkdir :: "string \<Rightarrow> 'w \<Rightarrow> (error + unit) \<times> 'w"
  fs_copyFile :: "string \<Rightarrow> string \<Rightarrow> 'w \<Rightarrow> (error + unit) \<times> 'w"
  fs_writeFile :: "string \<Rightarrow> string \<Rightarrow> 'w \<Rightarrow> (error + unit) \<times> 'w"
  console_log :: "string \<Rightarrow> 'w \<Rightarrow> 'w"

section \<open>\<^verbatim>\<open>src/helpers/env-variables.ts\<close>: writing the file\<close>

text \<open>
  \<^verbatim>\<open>createBackendEnvFile\<close>: render the variables, write them to \<^verbatim>\<open>.env\<close> under the root
  and report on the console. A rejected write is passed on and nothing is reported.
\<close>

definition createBackendEnvFile ::
  "Path \<Rightarrow> 'w System \<Rightarrow> ('n \<Rightarrow> string) \<Rightarrow> string \<Rightarrow> ('d, 'n) BackendOpts \<Rightarrow> 'w
     \<Rightarrow> (error + unit) \<times> 'w" where
  "createBackendEnvFile P S toString root opts w =
     (let envFileName = ''.env'';
          content = renderEnvVar (backend_envVars toString opts)
      in case fs_writeFile S (path_join P [root, envFileName]) content w of
           (Inl e, w') \<Rightarrow> (Inl e, w')
         | (Inr _, w') \<Rightarrow>
             (Inr (),
              console_log S
                (''Created '' @ [CHR 0x27] @ envFileName @ [CHR 0x27] @
                 '' file. Please check the settings.'') w'))"

section \<open>\<^verbatim>\<open>src/helpers/copy.ts\<close>\<close>

text \<open>
  \<^verbatim>\<open>interface CopyOption { cwd?: string; rename?: (basename: string) => string;
  parents?: boolean }\<close>. A call without options is a call with no property set.
\<close>

record CopyOption =
  cwd :: "string option"
  rename :: "(string \<Rightarrow> string) option"
  parents :: "bool option"

definition identity :: "string \<Rightarrow> string" where
  "identity x = x"

text \<open>The argument \<^verbatim>\<open>src: string | string[]\<close>.\<close>

datatype Src = Pattern string | Patterns "string list"

text \<open>\<^verbatim>\<open>const source = typeof src === "string" ? [src] : src\<close>\<close>

definition source :: "Src \<Rightarrow> string list" where
  "source src = (case src of Pattern s \<Rightarrow> [s] | Patterns ss \<Rightarrow> ss)"

text \<open>
  The callback mapped over the matched files is an \<^verbatim>\<open>async\<close> function with one \<^verbatim>\<open>await\<close>.
  A task is one call of it. It waits for its \<^verbatim>\<open>mkdir\<close>, with the outcome that call will
  have and the paths \<^verbatim>\<open>from\<close> and \<^verbatim>\<open>to\<close> it has computed, or for its \<^verbatim>\<open>copyFile\<close>, with the
  outcome of that call, or it has settled.
\<close>

datatype task =
    AwaitMkdir "error + unit" string string
  | AwaitCopyFile "error + unit"
  | Fulfilled
  | Rejected error

text \<open>
  The callback for one file \<open>p\<close> up to its \<^verbatim>\<open>await\<close>: the paths are computed and
  \<^verbatim>\<open>mkdir\<close> is called. A call is one step on the world, taken when the call is made.
\<close>

definition copyTask ::
  "Path \<Rightarrow> 'w System \<Rightarrow> string option \<Rightarrow> (string \<Rightarrow> string) \<Rightarrow> bool \<Rightarrow> string \<Rightarrow> string
     \<Rightarrow> 'w \<Rightarrow> task \<times> 'w" where
  "copyTask P S cwd' rename' parents' destRelativeToCwd p w =
     (let dirname = path_dirname P p;
          basename = rename' (path_basename P p);
          from = (if truthy cwd' then path_resolve P [the cwd', p] else p);
          to = (if parents'
                  then path_join P [destRelativeToCwd, dirname, basename]
                  else path_join P [destRelativeToCwd, basename])
      in case fs_mkdir S (path_dirname P to) w of
           (r, w') \<Rightarrow> (AwaitMkdir r from to, w'))"

text \<open>
  \<^verbatim>\<open>sourceFiles.map(async ...)\<close>: the callback runs for every file in turn, each time up to
  its \<^verbatim>\<open>await\<close>, so every \<^verbatim>\<open>mkdir\<close> is called, in the order of the files, before any task
  goes on.
\<close>

fun startTasks ::
  "(string \<Rightarrow> 'w \<Rightarrow> task \<times> 'w) \<Rightarrow> string list \<Rightarrow> 'w \<Rightarrow> task list \<times> 'w" where
  "startTasks start [] w = ([], w)"
| "startTasks start (p # ps) w =
     (case start p w of
        (t, w') \<Rightarrow> (case startTasks start ps w' of (ts, w'') \<Rightarrow> (t # ts, w'')))"

text \<open>
  A task goes on when the call it waits for settles. After a fulfilled \<^verbatim>\<open>mkdir\<close> it calls
  \<^verbatim>\<open>copyFile\<close> and waits for it; after a rejected \<^verbatim>\<open>mkdir\<close> it is rejected with that error;
  after its \<^verbatim>\<open>copyFile\<close> it settles as that call did.
\<close>

fun resume :: "'w System \<Rightarrow> task \<Rightarrow> 'w \<Rightarrow> task \<times> 'w" where
  "resume S (AwaitMkdir (Inl e) from to) w = (Rejected e, w)"
| "resume S (AwaitMkdir (Inr u) from to) w =
     (case fs_copyFile S from to w of (r, w') \<Rightarrow> (AwaitCopyFile r, w'))"
| "resume S (AwaitCopyFile (Inl e)) w = (Rejected e, w)"
| "resume S (AwaitCopyFile (Inr u)) w = (Fulfilled, w)"
| "resume S Fulfilled w = (Fulfilled, w)"
| "resume S (Rejected e) w = (Rejected e, w)"

text \<open>
  The order in which the calls settle is not fixed by the program. A schedule is a list
  of task numbers: at each entry, the call that this task waits for settles and the task
  goes on. The state of a run is the tasks, the first rejection so far, which is the one
  \<^verbatim>\<open>Promise.all\<close> reports, and the world. An entry for a settled task or for no task
  changes nothing.
\<close>

definition settle ::
  "'w System \<Rightarrow> task list \<times> error option \<times> 'w \<Rightarrow> nat \<Rightarrow> task list \<times> error option \<times> 'w" where
  "settle S state i =
     (case state of
        (tasks, rejection, w) \<Rightarrow>
          if i < length tasks then
            (case resume S (tasks ! i) w of
               (t, w') \<Rightarrow>
                 (tasks[i := t],
                  (case rejection of
                     Some e \<Rightarrow> Some e
                   | None \<Rightarrow> (case t of Rejected e \<Rightarrow> Some e | _ \<Rightarrow> None)),
                  w'))
          else state)"

text \<open>
  Every call settles in the end: after the entries of a schedule, the tasks that still
  wait go on in the order of the files, once for \<^verbatim>\<open>mkdir\<close> and once for \<^verbatim>\<open>copyFile\<close>.
\<close>

definition complete :: "nat \<Rightarrow> nat list \<Rightarrow> nat list" where
  "complete n schedule = schedule @ [0..<n] @ [0..<n]"

text \<open>
  \<^verbatim>\<open>Promise.all\<close> once the tasks have settled: rejected with the first rejection, fulfilled
  with the results of the tasks (all \<^verbatim>\<open>undefined\<close>) when there is none.
\<close>

definition Promise_all :: "task list \<Rightarrow> error option \<Rightarrow> error + unit list" where
  "Promise_all tasks rejection =
     (case rejection of Some e \<Rightarrow> Inl e | None \<Rightarrow> Inr (map (\<lambda>t. ()) tasks))"

text \<open>
  \<^verbatim>\<open>copy\<close>, an \<^verbatim>\<open>async\<close> function: the result is how the promise it returns settles, an
  error for a rejection, and the world is the one left when all tasks have settled. The
  test of the arguments runs before the first \<^verbatim>\<open>await\<close>. The destination is declared a
  string; the test \<^verbatim>\<open>!dest\<close> also catches a call from untyped code with \<^verbatim>\<open>undefined\<close>,
  which is \<open>None\<close> here. The options \<^verbatim>\<open>rename\<close> and \<^verbatim>\<open>parents\<close> default to \<^verbatim>\<open>identity\<close>
  and \<^verbatim>\<open>true\<close> when not set. The schedule is the one of the run.
\<close>

definition copy ::
  "Path \<Rightarrow> 'w System \<Rightarrow> nat list \<Rightarrow> Src \<Rightarrow> string option \<Rightarrow> CopyOption \<Rightarrow> 'w
     \<Rightarrow> (error + unit list) \<times> 'w" where
  "copy P S schedule src dest opt w =
     (let cwd' = cwd opt;
          rename' = (case rename opt of None \<Rightarrow> identity | Some f \<Rightarrow> f);
          parents' = (case parents opt of None \<Rightarrow> True | Some b \<Rightarrow> b)
      in if length (source src) = 0 \<or> \<not> truthy dest
           then (Inl (TypeError ''`src` and `dest` are required''), w)
           else (case glob S (source src) cwd' w of
                   (Inl e, w') \<Rightarrow> (Inl e, w')
                 | (Inr sourceFiles, w') \<Rightarrow>
                     (let destRelativeToCwd =
                            (if truthy cwd' then path_resolve P [the cwd', the dest] else the dest)
                      in case startTasks (copyTask P S cwd' rename' parents' destRelativeToCwd)
                                sourceFiles w' of
                           (tasks, w'') \<Rightarrow>
                             (case foldl (settle S) (tasks, None, w'')
                                     (complete (length tasks) schedule) of
                                (tasks', rejection, w''') \<Rightarrow>
                                  (Promise_all tasks' rejection, w''')))))"

section \<open>A POSIX \<^verbatim>\<open>path\<close> module and a recording system\<close>

text \<open>
  To run the helpers on examples: the POSIX flavour of Node's \<^verbatim>\<open>path\<close> module, after the
  algorithms of the library, and a system that records every call and lets it succeed.
\<close>

text \<open>Segments of a path between slashes, and back.\<close>

definition segments :: "string \<Rightarrow> string list" where
  "segments p = splitOn (CHR ''/'') p"

fun joinWith :: "string \<Rightarrow> string list \<Rightarrow> string" where
  "joinWith sep [] = ''''"
| "joinWith sep [s] = s"
| "joinWith sep (s # t # ss) = s @ sep @ joinWith sep (t # ss)"

text \<open>
  \<^verbatim>\<open>normalizeString\<close>: empty segments and \<^verbatim>\<open>.\<close> are dropped, \<^verbatim>\<open>..\<close> removes the segment
  before it when there is one other than \<^verbatim>\<open>..\<close>, and is kept only where the path may
  climb above its start. The segments kept so far are in reverse order.
\<close>

fun normalizeSegments :: "bool \<Rightarrow> string list \<Rightarrow> string list \<Rightarrow> string list" where
  "normalizeSegments allowAboveRoot kept [] = rev kept"
| "normalizeSegments allowAboveRoot kept (s # ss) =
     (if s = '''' \<or> s = ''.'' then normalizeSegments allowAboveRoot kept ss
      else if s = ''..'' then
        (case kept of
           k # ks \<Rightarrow>
             (if k \<noteq> ''..'' then normalizeSegments allowAboveRoot ks ss
              else if allowAboveRoot then normalizeSegments allowAboveRoot (s # kept) ss
              else normalizeSegments allowAboveRoot kept ss)
         | [] \<Rightarrow>
             (if allowAboveRoot then normalizeSegments allowAboveRoot [s] ss
              else normalizeSegments allowAboveRoot kept ss))
      else normalizeSegments allowAboveRoot (s # kept) ss)"

definition normalizeString :: "string \<Rightarrow> bool \<Rightarrow> string" where
  "normalizeString p allowAboveRoot =
     joinWith ''/'' (normalizeSegments allowAboveRoot [] (segments p))"

definition posix_normalize :: "string \<Rightarrow> string" where
  "posix_normalize p =
     (if p = '''' then ''.''
      else
        (let isAbsolute = (hd p = CHR ''/'');
             trailingSeparator = (last p = CHR ''/'');
             q = normalizeString p (\<not> isAbsolute)
         in if q = '''' then (if isAbsolute then ''/'' else if trailingSeparator then ''./'' else ''.'')
            else (if isAbsolute then ''/'' else '''') @ q @ (if trailingSeparator then ''/'' else '''')))"

definition posix_join :: "string list \<Rightarrow> string" where
  "posix_join args =
     (case filter (\<lambda>a. a \<noteq> '''') args of
        [] \<Rightarrow> ''.''
      | parts \<Rightarrow> posix_normalize (joinWith ''/'' parts))"

definition posix_basename :: "string \<Rightarrow> string" where
  "posix_basename p =
     rev (takeWhile (\<lambda>c. c \<noteq> CHR ''/'') (dropWhile (\<lambda>c. c = CHR ''/'') (rev p)))"

definition posix_dirname :: "string \<Rightarrow> string" where
  "posix_dirname p =
     (case p of
        [] \<Rightarrow> ''.''
      | c # cs \<Rightarrow>
          (let hasRoot = (c = CHR ''/'');
               r = dropWhile (\<lambda>x. x \<noteq> CHR ''/'') (dropWhile (\<lambda>x. x = CHR ''/'') (rev cs))
           in case r of
                [] \<Rightarrow> (if hasRoot then ''/'' else ''.'')
              | _ # front \<Rightarrow> (if hasRoot \<and> front = [] then ''//'' else c # rev front)))"

text \<open>
  \<^verbatim>\<open>path.resolve\<close>: the arguments are taken from the right until one is absolute, then
  the current directory of the process.
\<close>

fun resolveFrom :: "string list \<Rightarrow> string \<Rightarrow> string \<times> bool" where
  "resolveFrom [] resolved = (resolved, False)"
| "resolveFrom (p # ps) resolved =
     (if p = '''' then resolveFrom ps resolved
      else if hd p = CHR ''/'' then (p @ ''/'' @ resolved, True)
      else resolveFrom ps (p @ ''/'' @ resolved))"

definition posix_resolve :: "string \<Rightarrow> string list \<Rightarrow> string" where
  "posix_resolve processCwd args =
     (case resolveFrom (rev args @ [processCwd]) '''' of
        (resolvedPath, resolvedAbsolute) \<Rightarrow>
          (let q = normalizeString resolvedPath (\<not> resolvedAbsolute)
           in if resolvedAbsolute then ''/'' @ q
              else if q \<noteq> '''' then q else ''.''))"

definition posix :: "string \<Rightarrow> Path" where
  "posix processCwd =
     \<lparr>path_dirname = posix_dirname, path_basename = posix_basename,
      path_join = posix_join, path_resolve = posix_resolve processCwd\<rparr>"

datatype call =
    Glob "string list" "string option"
  | Mkdir string
  | CopyFile string string
  | WriteFile string string
  | ConsoleLog string

text \<open>
  The world is the list of the calls made so far; \<open>matches\<close> is what the patterns
  match in the file system.
\<close>

definition recording :: "(string list \<Rightarrow> string option \<Rightarrow> string list) \<Rightarrow> call list System" where
  "recording matches =
     \<lparr>glob = (\<lambda>patterns dir calls. (Inr (matches patterns dir), calls @ [Glob patterns dir])),
      fs_mkdir = (\<lambda>dir calls. (Inr (), calls @ [Mkdir dir])),
      fs_copyFile = (\<lambda>from to calls. (Inr (), calls @ [CopyFile from to])),
      fs_writeFile = (\<lambda>file content calls. (Inr (), calls @ [WriteFile file content])),
      console_log = (\<lambda>line calls. calls @ [ConsoleLog line])\<rparr>"

text \<open>
  The tasks in the order in which they first go on under a list of entries, among \<open>n\<close>
  tasks: the order in which \<^verbatim>\<open>copyFile\<close> is called when every \<^verbatim>\<open>mkdir\<close> is fulfilled.
\<close>

definition firstSettled :: "nat \<Rightarrow> nat list \<Rightarrow> nat list" where
  "firstSettled n entries =
     foldl (\<lambda>seen i. if i < n \<and> i \<notin> set seen then seen @ [i] else seen) [] entries"

text \<open>
  A number type for the examples: the port numbers, whole numbers from 0 to 65535, which
  \<^verbatim>\<open>Number.prototype.toString\<close> prints in decimal digits.
\<close>

fun digits :: "nat \<Rightarrow> string" where
  "digits n = (if n < 10 then [char_of (48 + n)] else digits (n div 10) @ [char_of (48 + n mod 10)])"

declare digits.simps [simp del]

definition portToString :: "16 word \<Rightarrow> string" where
  "portToString p = digits (unat p)"

text \<open>ASCII upper case, as a \<^verbatim>\<open>rename\<close> function.\<close>

definition toUpperCase :: "string \<Rightarrow> string" where
  "toUpperCase s =
     map (\<lambda>c. if 97 \<le> (of_char c :: nat) \<and> (of_char c :: nat) \<le> 122
               then char_of ((of_char c :: nat) - 32) else c) s"


section \<open>Properties of the renderer\<close>

lemma replaceAll_char:
  "replaceAll [c] rep s = concat (map (\<lambda>x. if x = c then rep else [x]) s)"
  by (induction s) simp_all

lemma splitOn_not_Nil: "splitOn sep s \<noteq> []"
  by (induction s) (simp_all split: list.splits)

lemma splitOn_no_sep: "l \<in> set (splitOn sep s) \<Longrightarrow> sep \<notin> set l"
proof (induction s arbitrary: l)
  case Nil
  then show ?case by simp
next
  case (Cons c cs)
  show ?case
  proof (cases "c = sep")
    case True
    with Cons show ?thesis by auto
  next
    case False
    obtain k ks where split: "splitOn sep cs = k # ks"
      using splitOn_not_Nil [of sep cs] by (cases "splitOn sep cs") auto
    from Cons.prems False split have "l = c # k \<or> l \<in> set ks" by simp
    then show ?thesis
    proof
      assume "l = c # k"
      moreover have "sep \<notin> set k" using Cons.IH [of k] split by simp
      ultimately show ?thesis using False by auto
    next
      assume "l \<in> set ks"
      then show ?thesis using Cons.IH [of l] split by simp
    qed
  qed
qed

lemma splitOn_prefixed:
  "p @ replaceAll [sep] (sep # p) s @ [sep] = concat (map (\<lambda>l. p @ l @ [sep]) (splitOn sep s))"
proof (induction s)
  case Nil
  show ?case by simp
next
  case (Cons c cs)
  show ?case
  proof (cases "c = sep")
    case True
    with Cons show ?thesis by simp
  next
    case False
    obtain k ks where split: "splitOn sep cs = k # ks"
      using splitOn_not_Nil [of sep cs] by (cases "splitOn sep cs") auto
    from Cons split
    have "replaceAll [sep] (sep # p) cs @ [sep] = k @ [sep] @ concat (map (\<lambda>l. p @ l @ [sep]) ks)"
      by simp
    with False split show ?thesis by simp
  qed
qed

lemma splitOn_joined: "concat (map (\<lambda>l. l @ [sep]) (splitOn sep s)) = s @ [sep]"
proof (induction s)
  case Nil
  show ?case by simp
next
  case (Cons c cs)
  obtain k ks where split: "splitOn sep cs = k # ks"
    using splitOn_not_Nil [of sep cs] by (cases "splitOn sep cs") auto
  with Cons show ?case by (cases "c = sep") simp_all
qed

lemma renderStep_prev: "renderStep prev env = prev @ renderStep '''' env"
  by (simp add: renderStep_def)

lemma renderStep_nameless:
  "name e = None \<Longrightarrow> description e = None \<Longrightarrow> renderStep prev e = prev"
  by (simp add: renderStep_def truthy_def)

lemma foldl_renderStep: "foldl renderStep acc envVars = acc @ foldl renderStep '''' envVars"
proof (induction envVars arbitrary: acc)
  case Nil
  show ?case by simp
next
  case (Cons env envVars)
  have "foldl renderStep acc (env # envVars) = foldl renderStep (renderStep acc env) envVars"
    by simp
  also have "\<dots> = renderStep acc env @ foldl renderStep '''' envVars"
    by (rule Cons.IH)
  also have "\<dots> = acc @ renderStep '''' env @ foldl renderStep '''' envVars"
    using renderStep_prev [of acc env] by simp
  also have "\<dots> = acc @ foldl renderStep (renderStep '''' env) envVars"
    using Cons.IH [of "renderStep '''' env"] by simp
  finally show ?case by simp
qed

lemma renderEnvVar_Nil: "renderEnvVar [] = ''''"
  by (simp add: renderEnvVar_def)

lemma renderEnvVar_Cons: "renderEnvVar (env # envVars) = renderStep '''' env @ renderEnvVar envVars"
  using foldl_renderStep [of "renderStep '''' env" envVars] by (simp add: renderEnvVar_def)

lemma renderEnvVar_append: "renderEnvVar (xs @ ys) = renderEnvVar xs @ renderEnvVar ys"
  by (induction xs) (simp_all add: renderEnvVar_Nil renderEnvVar_Cons)

lemma renderEnvVar_single: "renderEnvVar [env] = renderStep '''' env"
  by (simp add: renderEnvVar_Cons renderEnvVar_Nil)

lemma renderStep_line_end: "renderStep '''' env = '''' \<or> last (renderStep '''' env) = CHR 0x0A"
  by (simp add: renderStep_def)

lemma renderEnvVar_line_end: "renderEnvVar envVars = '''' \<or> last (renderEnvVar envVars) = CHR 0x0A"
proof (induction envVars rule: rev_induct)
  case Nil
  show ?case by (simp add: renderEnvVar_Nil)
next
  case (snoc env envVars)
  have "renderEnvVar (envVars @ [env]) = renderEnvVar envVars @ renderStep '''' env"
    by (simp add: renderEnvVar_append renderEnvVar_single)
  with snoc renderStep_line_end [of env] show ?case by (auto simp: last_append)
qed

subsection \<open>Assignment and placeholder lines\<close>

text \<open>
  Claim C1. For an entry \<open>e\<close> of the descriptor sequence whose name \<open>n\<close> is truthy,
  standing between the entries \<open>xs\<close> and \<open>ys\<close>: when its value \<open>v\<close> is truthy, the
  rendering holds, after the text of \<open>xs\<close> and the comment block of \<open>e\<close>, the line
  \<^verbatim>\<open>n=v\<close> and an empty line; when its value is absent or the empty string, it holds
  there the placeholder line \<^verbatim>\<open># n=\<close> and an empty line. The text before is empty or
  ends with a line break, so both begin a line of the output.
\<close>

theorem renderEnvVar_assignment_or_placeholder:
  assumes "name e = Some n" and "n \<noteq> ''''"
  shows "(\<forall>v. value e = Some v \<and> v \<noteq> '''' \<longrightarrow>
            renderEnvVar (xs @ e # ys) =
              (renderEnvVar xs @ renderEnvVar [e\<lparr>name := None\<rparr>]) @
              n @ ''='' @ v @ ''\<newline>\<newline>'' @ renderEnvVar ys)
       \<and> (value e = None \<or> value e = Some '''' \<longrightarrow>
            renderEnvVar (xs @ e # ys) =
              (renderEnvVar xs @ renderEnvVar [e\<lparr>name := None\<rparr>]) @
              ''# '' @ n @ ''=\<newline>\<newline>'' @ renderEnvVar ys)
       \<and> (renderEnvVar xs @ renderEnvVar [e\<lparr>name := None\<rparr>] = '''' \<or>
          last (renderEnvVar xs @ renderEnvVar [e\<lparr>name := None\<rparr>]) = CHR 0x0A)"
proof -
  have whole: "renderEnvVar (xs @ e # ys) = renderEnvVar xs @ renderStep '''' e @ renderEnvVar ys"
    by (simp add: renderEnvVar_append renderEnvVar_Cons)
  have assign: "renderStep '''' e =
      renderEnvVar [e\<lparr>name := None\<rparr>] @ n @ ''='' @ v @ ''\<newline>\<newline>''"
    if "value e = Some v" and "v \<noteq> ''''" for v
    using assms that by (simp add: renderEnvVar_single renderStep_def truthy_def)
  have placeholder: "renderStep '''' e =
      renderEnvVar [e\<lparr>name := None\<rparr>] @ ''# '' @ n @ ''=\<newline>\<newline>''"
    if "value e = None \<or> value e = Some ''''"
    using assms that by (auto simp add: renderEnvVar_single renderStep_def truthy_def)
  have line_start: "renderEnvVar xs @ renderEnvVar [e\<lparr>name := None\<rparr>] = '''' \<or>
      last (renderEnvVar xs @ renderEnvVar [e\<lparr>name := None\<rparr>]) = CHR 0x0A"
    using renderEnvVar_line_end [of "xs @ [e\<lparr>name := None\<rparr>]"]
    by (simp only: renderEnvVar_append)
  from whole assign placeholder line_start show ?thesis by simp
qed

theorem renderEnvVar_assignment_or_placeholder_witness:
  "renderEnvVar
     [\<lparr>name = None, description = Some ''General settings'', value = None\<rparr>,
      \<lparr>name = Some ''X'', description = None, value = Some ''Y''\<rparr>,
      \<lparr>name = Some ''X'', description = Some ''unset'', value = Some ''''\<rparr>,
      \<lparr>name = Some ''Z'', description = None, value = None\<rparr>]
   = ''# General settings\<newline>X=Y\<newline>\<newline># unset\<newline># X=\<newline>\<newline># Z=\<newline>\<newline>''"
  using renderEnvVar_assignment_or_placeholder
    [of "\<lparr>name = Some ''X'', description = None, value = Some ''Y''\<rparr>" "''X''"
        "[\<lparr>name = None, description = Some ''General settings'', value = None\<rparr>]"
        "[\<lparr>name = Some ''X'', description = Some ''unset'', value = Some ''''\<rparr>,
          \<lparr>name = Some ''Z'', description = None, value = None\<rparr>]"]
  by (simp add: renderEnvVar_def renderStep_def truthy_def)

subsection \<open>Order\<close>

text \<open>
  Claim C2. The rendering is a fold that keeps the order of the input: the empty
  sequence renders to the empty text, the rendering of a concatenation is the
  concatenation of the renderings, and the rendering of a sequence is the concatenation
  of the renderings of its entries one by one. So for an entry \<open>a\<close> before an entry
  \<open>b\<close> the text of \<open>a\<close> stands entirely before the text of \<open>b\<close>, whatever their
  names are, the same name included: nothing is reordered and nothing is dropped.
\<close>

theorem renderEnvVar_homomorphism:
  "renderEnvVar [] = ''''
   \<and> renderEnvVar (xs @ ys) = renderEnvVar xs @ renderEnvVar ys
   \<and> renderEnvVar xs = concat (map (\<lambda>e. renderEnvVar [e]) xs)
   \<and> renderEnvVar (xs @ a # ys @ b # zs) =
       renderEnvVar xs @ renderEnvVar [a] @ renderEnvVar ys @ renderEnvVar [b] @ renderEnvVar zs"
proof -
  have "renderEnvVar xs = concat (map (\<lambda>e. renderEnvVar [e]) xs)"
    by (induction xs) (simp_all add: renderEnvVar_Nil renderEnvVar_Cons)
  moreover have "renderEnvVar (xs @ a # ys @ b # zs) =
      renderEnvVar xs @ renderEnvVar [a] @ renderEnvVar ys @ renderEnvVar [b] @ renderEnvVar zs"
    by (simp add: renderEnvVar_append renderEnvVar_Cons renderEnvVar_Nil)
  ultimately show ?thesis
    using renderEnvVar_Nil renderEnvVar_append [of xs ys] by simp
qed

theorem renderEnvVar_homomorphism_witness:
  "renderEnvVar
     ([\<lparr>name = Some ''A'', description = None, value = Some ''1''\<rparr>] @
      \<lparr>name = Some ''K'', description = None, value = Some ''first''\<rparr> #
      [] @
      \<lparr>name = Some ''K'', description = None, value = Some ''second''\<rparr> #
      [\<lparr>name = Some ''B'', description = None, value = None\<rparr>])
   = ''A=1\<newline>\<newline>K=first\<newline>\<newline>K=second\<newline>\<newline># B=\<newline>\<newline>''"
  using renderEnvVar_homomorphism
    [of "[\<lparr>name = Some ''A'', description = None, value = Some ''1''\<rparr>]" "[]"
        "\<lparr>name = Some ''K'', description = None, value = Some ''first''\<rparr>"
        "\<lparr>name = Some ''K'', description = None, value = Some ''second''\<rparr>"
        "[\<lparr>name = Some ''B'', description = None, value = None\<rparr>]"]
  by (simp add: renderEnvVar_def renderStep_def truthy_def)

subsection \<open>Descriptions\<close>

text \<open>
  Claim C5. For an entry whose description \<open>d\<close> is truthy, the rendering holds, after
  the text of the entries before it, one comment line \<^verbatim>\<open># l\<close> for every line \<open>l\<close> of
  \<open>d\<close>, in order, and then what the entry renders to without its description. The
  lines of \<open>d\<close> are its pieces between line breaks: none of them holds a line break,
  and joined by line breaks they are \<open>d\<close> again.
\<close>

theorem renderEnvVar_description_lines:
  assumes "description e = Some d" and "d \<noteq> ''''"
  shows "renderEnvVar (xs @ e # ys) =
           renderEnvVar xs @
           concat (map (\<lambda>l. ''# '' @ l @ ''\<newline>'') (splitOn (CHR 0x0A) d)) @
           renderEnvVar [e\<lparr>description := None\<rparr>] @ renderEnvVar ys
       \<and> (\<forall>l \<in> set (splitOn (CHR 0x0A) d). CHR 0x0A \<notin> set l)
       \<and> concat (map (\<lambda>l. l @ ''\<newline>'') (splitOn (CHR 0x0A) d)) = d @ ''\<newline>''"
proof -
  have block: "''# '' @ replaceAll ''\<newline>'' ''\<newline># '' d @ ''\<newline>'' =
      concat (map (\<lambda>l. ''# '' @ l @ ''\<newline>'') (splitOn (CHR 0x0A) d))"
    using splitOn_prefixed [of "''# ''" "CHR 0x0A" d] by simp
  have "renderStep '''' e =
      (''# '' @ replaceAll ''\<newline>'' ''\<newline># '' d @ ''\<newline>'') @ renderStep '''' (e\<lparr>description := None\<rparr>)"
    using assms by (simp add: renderStep_def truthy_def)
  with block have "renderStep '''' e =
      concat (map (\<lambda>l. ''# '' @ l @ ''\<newline>'') (splitOn (CHR 0x0A) d)) @
      renderEnvVar [e\<lparr>description := None\<rparr>]"
    by (simp only: renderEnvVar_single)
  then have "renderEnvVar (xs @ e # ys) =
      renderEnvVar xs @
      concat (map (\<lambda>l. ''# '' @ l @ ''\<newline>'') (splitOn (CHR 0x0A) d)) @
      renderEnvVar [e\<lparr>description := None\<rparr>] @ renderEnvVar ys"
    by (simp add: renderEnvVar_append renderEnvVar_Cons)
  moreover have "\<forall>l \<in> set (splitOn (CHR 0x0A) d). CHR 0x0A \<notin> set l"
    using splitOn_no_sep by blast
  moreover have "concat (map (\<lambda>l. l @ ''\<newline>'') (splitOn (CHR 0x0A) d)) = d @ ''\<newline>''"
    using splitOn_joined [of "CHR 0x0A" d] by simp
  ultimately show ?thesis by blast
qed

theorem renderEnvVar_description_lines_witness:
  "splitOn (CHR 0x0A) ''a\<newline>b'' = [''a'', ''b'']
   \<and> renderEnvVar [\<lparr>name = None, description = Some ''a\<newline>b'', value = None\<rparr>] = ''# a\<newline># b\<newline>''"
  using renderEnvVar_description_lines
    [of "\<lparr>name = None, description = Some ''a\<newline>b'', value = None\<rparr>" "''a\<newline>b''" "[]" "[]"]
  by (simp add: renderEnvVar_def renderStep_def truthy_def)

subsection \<open>Entries that render to nothing\<close>

text \<open>
  Claim C6. A sequence of descriptors in which every entry has neither a name nor a
  description renders to the empty string, whatever the values of the entries are.
\<close>

theorem renderEnvVar_nameless_empty:
  assumes "\<forall>e \<in> set envVars. name e = None \<and> description e = None"
  shows "renderEnvVar envVars = ''''"
  using assms
proof (induction envVars)
  case Nil
  show ?case by (simp add: renderEnvVar_Nil)
next
  case (Cons e envVars)
  from Cons.prems have "name e = None" and "description e = None"
    by simp_all
  then have "renderStep '''' e = ''''"
    by (rule renderStep_nameless)
  moreover from Cons.prems have "\<forall>x \<in> set envVars. name x = None \<and> description x = None"
    by simp
  then have "renderEnvVar envVars = ''''"
    by (rule Cons.IH)
  ultimately show ?case
    by (simp add: renderEnvVar_Cons)
qed

theorem renderEnvVar_nameless_empty_witness:
  "renderEnvVar
     [\<lparr>name = None, description = None, value = None\<rparr>,
      \<lparr>name = None, description = None, value = Some ''orphan''\<rparr>] = ''''"
  using renderEnvVar_nameless_empty
    [of "[\<lparr>name = None, description = None, value = None\<rparr>,
          \<lparr>name = None, description = None, value = Some ''orphan''\<rparr>]"]
  by simp

text \<open>
  Claim C9. Name and description are tested by truthiness. An entry whose description
  is the empty string renders as the same entry without description: no comment line.
  An entry whose name is the empty string renders as the same entry without name:
  neither an assignment nor a placeholder line. An entry with both empty renders to
  nothing, whatever its value is.
\<close>

theorem renderEnvVar_empty_as_absent:
  "renderEnvVar (xs @ e\<lparr>description := Some ''''\<rparr> # ys) =
     renderEnvVar (xs @ e\<lparr>description := None\<rparr> # ys)
   \<and> renderEnvVar (xs @ e\<lparr>name := Some ''''\<rparr> # ys) =
     renderEnvVar (xs @ e\<lparr>name := None\<rparr> # ys)
   \<and> renderEnvVar [\<lparr>name = n, description = Some '''', value = v\<rparr>] =
     renderEnvVar [\<lparr>name = n, description = None, value = v\<rparr>]
   \<and> renderEnvVar [\<lparr>name = Some '''', description = d, value = v\<rparr>] =
     renderEnvVar [\<lparr>name = None, description = d, value = v\<rparr>]
   \<and> renderEnvVar [\<lparr>name = Some '''', description = Some '''', value = v\<rparr>] = ''''"
  by (simp add: renderEnvVar_append renderEnvVar_Cons renderEnvVar_Nil renderStep_def truthy_def)

theorem renderEnvVar_empty_as_absent_witness:
  "renderEnvVar [\<lparr>name = Some ''X'', description = Some '''', value = Some ''Y''\<rparr>] = ''X=Y\<newline>\<newline>''
   \<and> renderEnvVar [\<lparr>name = Some '''', description = Some ''note'', value = Some ''Y''\<rparr>] = ''# note\<newline>''"
  using renderEnvVar_empty_as_absent
    [of "[]" "\<lparr>name = Some ''X'', description = Some ''note'', value = Some ''Y''\<rparr>" "[]"
        "Some ''X''" "Some ''Y''" "Some ''note''"]
  by (simp add: renderEnvVar_def renderStep_def truthy_def)


section \<open>Properties of \<^verbatim>\<open>copy\<close>\<close>

lemma recording_simps:
  "glob (recording matches) patterns dir calls = (Inr (matches patterns dir), calls @ [Glob patterns dir])"
  "fs_mkdir (recording matches) dir' calls = (Inr (), calls @ [Mkdir dir'])"
  "fs_copyFile (recording matches) from to calls = (Inr (), calls @ [CopyFile from to])"
  "fs_writeFile (recording matches) file content calls = (Inr (), calls @ [WriteFile file content])"
  "console_log (recording matches) line calls = calls @ [ConsoleLog line]"
  by (simp_all add: recording_def)

lemma copyTask_recording:
  "copyTask P (recording matches) c rn par root p calls =
     (AwaitMkdir (Inr ())
        (if truthy c then path_resolve P [the c, p] else p)
        (if par then path_join P [root, path_dirname P p, rn (path_basename P p)]
         else path_join P [root, rn (path_basename P p)]),
      calls @
      [Mkdir (path_dirname P
                (if par then path_join P [root, path_dirname P p, rn (path_basename P p)]
                 else path_join P [root, rn (path_basename P p)]))])"
  by (simp add: copyTask_def recording_simps Let_def)

lemma startTasks_appending:
  assumes "\<And>p calls. start p calls = (g p, calls @ [h p])"
  shows "startTasks start ps calls = (map g ps, calls @ map h ps)"
proof (induction ps arbitrary: calls)
  case Nil
  show ?case by simp
next
  case (Cons p ps)
  show ?case
    unfolding startTasks.simps assms [of p calls] prod.case Cons.IH by simp
qed

lemma firstSettled_snoc:
  "firstSettled n (entries @ [i]) =
     (if i < n \<and> i \<notin> set (firstSettled n entries) then firstSettled n entries @ [i]
      else firstSettled n entries)"
  by (simp add: firstSettled_def)

lemma firstSettled_Nil: "firstSettled n [] = []"
  by (simp add: firstSettled_def)

lemma set_firstSettled: "set (firstSettled n entries) = {i \<in> set entries. i < n}"
  by (induction entries rule: rev_induct) (auto simp add: firstSettled_Nil firstSettled_snoc)

lemma distinct_firstSettled: "distinct (firstSettled n entries)"
  by (induction entries rule: rev_induct) (simp_all add: firstSettled_Nil firstSettled_snoc)

lemma set_firstSettled_complete: "set (firstSettled n (complete n schedule)) = {..<n}"
  by (auto simp add: set_firstSettled complete_def)

text \<open>
  A run on the recording system: a task that has gone on \<open>k\<close> times waits for its
  \<^verbatim>\<open>mkdir\<close>, for its \<^verbatim>\<open>copyFile\<close>, or is fulfilled.
\<close>

lemma settle_recording_run:
  fixes src_of dst_of :: "string \<Rightarrow> string"
  defines "stage \<equiv> (\<lambda>p k. if k = 0 then AwaitMkdir (Inr ()) (src_of p) (dst_of p)
                           else if k = 1 then AwaitCopyFile (Inr ()) else Fulfilled)"
  shows "foldl (settle (recording matches))
           (map (\<lambda>p. AwaitMkdir (Inr ()) (src_of p) (dst_of p)) ps, None, calls) entries =
         (map (\<lambda>i. stage (ps ! i) (count_list entries i)) [0..<length ps], None,
          calls @ map (\<lambda>i. CopyFile (src_of (ps ! i)) (dst_of (ps ! i))) (firstSettled (length ps) entries))"
proof (induction entries rule: rev_induct)
  case Nil
  have "map (\<lambda>p. AwaitMkdir (Inr ()) (src_of p) (dst_of p)) ps =
      map (\<lambda>i. AwaitMkdir (Inr ()) (src_of (ps ! i)) (dst_of (ps ! i))) [0..<length ps]"
    by (intro nth_equalityI) simp_all
  then show ?case
    by (simp add: firstSettled_Nil stage_def)
next
  case (snoc i entries)
  let ?tasks = "map (\<lambda>j. stage (ps ! j) (count_list entries j)) [0..<length ps]"
  let ?calls = "calls @ map (\<lambda>j. CopyFile (src_of (ps ! j)) (dst_of (ps ! j))) (firstSettled (length ps) entries)"
  have step: "foldl (settle (recording matches))
      (map (\<lambda>p. AwaitMkdir (Inr ()) (src_of p) (dst_of p)) ps, None, calls) (entries @ [i]) =
      settle (recording matches) (?tasks, None, ?calls) i"
    by (simp add: snoc.IH)
  show ?case
  proof (cases "i < length ps")
    case False
    then have "settle (recording matches) (?tasks, None, ?calls) i = (?tasks, None, ?calls)"
      by (simp add: settle_def)
    moreover from False have "firstSettled (length ps) (entries @ [i]) = firstSettled (length ps) entries"
      by (simp add: firstSettled_snoc)
    moreover from False have "map (\<lambda>j. stage (ps ! j) (count_list (entries @ [i]) j)) [0..<length ps] = ?tasks"
      by simp
    ultimately show ?thesis using step by simp
  next
    case True
    have seen: "i \<in> set (firstSettled (length ps) entries) \<longleftrightarrow> count_list entries i \<noteq> 0"
      using True by (simp add: set_firstSettled count_list_0_iff)
    have tasks: "?tasks[i := t] =
        map (\<lambda>j. if j = i then t else stage (ps ! j) (count_list entries j)) [0..<length ps]" for t
      using True by (intro nth_equalityI) (simp_all add: nth_list_update)
    have nth: "?tasks ! i = stage (ps ! i) (count_list entries i)"
      using True by simp
    have counted: "map (\<lambda>j. stage (ps ! j) (count_list (entries @ [i]) j)) [0..<length ps] =
        map (\<lambda>j. if j = i then stage (ps ! i) (Suc (count_list entries i))
                  else stage (ps ! j) (count_list entries j)) [0..<length ps]"
      by (intro nth_equalityI) simp_all
    have resumed: "resume (recording matches) (stage p k) w =
        (stage p (Suc k), if k = 0 then w @ [CopyFile (src_of p) (dst_of p)] else w)" for p k w
      by (simp add: stage_def recording_simps)
    have pending: "(case stage p k of Rejected e \<Rightarrow> Some e | _ \<Rightarrow> None) = None" for p k
      by (simp add: stage_def)
    have "settle (recording matches) (?tasks, None, ?calls) i =
        (?tasks[i := stage (ps ! i) (Suc (count_list entries i))], None,
         if count_list entries i = 0
         then ?calls @ [CopyFile (src_of (ps ! i)) (dst_of (ps ! i))] else ?calls)"
      using True by (simp add: settle_def nth resumed pending del: upt.simps)
    also have "\<dots> =
        (map (\<lambda>j. stage (ps ! j) (count_list (entries @ [i]) j)) [0..<length ps], None,
         calls @ map (\<lambda>j. CopyFile (src_of (ps ! j)) (dst_of (ps ! j)))
           (firstSettled (length ps) (entries @ [i])))"
      using True seen by (simp add: tasks counted firstSettled_snoc del: upt.simps)
    finally have "settle (recording matches) (?tasks, None, ?calls) i =
        (map (\<lambda>j. stage (ps ! j) (count_list (entries @ [i]) j)) [0..<length ps], None,
         calls @ map (\<lambda>j. CopyFile (src_of (ps ! j)) (dst_of (ps ! j)))
           (firstSettled (length ps) (entries @ [i])))" .
    with step show ?thesis by simp
  qed
qed

lemma copy_recording_run:
  assumes "source src \<noteq> []" and "dest = Some d" and "d \<noteq> ''''"
  shows "copy P (recording matches) schedule src dest opt calls =
     (let root = (if truthy (cwd opt) then path_resolve P [the (cwd opt), d] else d);
          rn = (case rename opt of None \<Rightarrow> identity | Some f \<Rightarrow> f);
          par = (case parents opt of None \<Rightarrow> True | Some b \<Rightarrow> b);
          dst_of = (\<lambda>p. if par then path_join P [root, path_dirname P p, rn (path_basename P p)]
                         else path_join P [root, rn (path_basename P p)]);
          src_of = (\<lambda>p. if truthy (cwd opt) then path_resolve P [the (cwd opt), p] else p);
          sourceFiles = matches (source src) (cwd opt)
      in (Inr (map (\<lambda>p. ()) sourceFiles),
          calls @ Glob (source src) (cwd opt) #
          map (\<lambda>p. Mkdir (path_dirname P (dst_of p))) sourceFiles @
          map (\<lambda>i. CopyFile (src_of (sourceFiles ! i)) (dst_of (sourceFiles ! i)))
            (firstSettled (length sourceFiles) (complete (length sourceFiles) schedule))))"
proof -
  define root where "root = (if truthy (cwd opt) then path_resolve P [the (cwd opt), d] else d)"
  define rn where "rn = (case rename opt of None \<Rightarrow> identity | Some f \<Rightarrow> f)"
  define par where "par = (case parents opt of None \<Rightarrow> True | Some b \<Rightarrow> b)"
  define dst_of where "dst_of = (\<lambda>p. if par then path_join P [root, path_dirname P p, rn (path_basename P p)]
                         else path_join P [root, rn (path_basename P p)])"
  define src_of where "src_of = (\<lambda>p. if truthy (cwd opt) then path_resolve P [the (cwd opt), p] else p)"
  define ps where "ps = matches (source src) (cwd opt)"
  have valid: "truthy dest"
    using assms by (simp add: truthy_def)
  have destination:
    "(if truthy (cwd opt) then path_resolve P [the (cwd opt), the dest] else the dest) = root"
    using assms(2) by (simp add: root_def)
  have start: "copyTask P (recording matches) (cwd opt) rn par root p w =
      (AwaitMkdir (Inr ()) (src_of p) (dst_of p), w @ [Mkdir (path_dirname P (dst_of p))])" for p w
    by (simp add: copyTask_recording src_of_def dst_of_def)
  have started: "startTasks (copyTask P (recording matches) (cwd opt) rn par root) ps w =
      (map (\<lambda>p. AwaitMkdir (Inr ()) (src_of p) (dst_of p)) ps,
       w @ map (\<lambda>p. Mkdir (path_dirname P (dst_of p))) ps)" for w
    by (rule startTasks_appending) (rule start)
  have run: "foldl (settle (recording matches))
      (map (\<lambda>p. AwaitMkdir (Inr ()) (src_of p) (dst_of p)) ps, None, w) entries =
      (map (\<lambda>i. (if count_list entries i = 0 then AwaitMkdir (Inr ()) (src_of (ps ! i)) (dst_of (ps ! i))
                   else if count_list entries i = 1 then AwaitCopyFile (Inr ()) else Fulfilled))
         [0..<length ps], None,
       w @ map (\<lambda>i. CopyFile (src_of (ps ! i)) (dst_of (ps ! i))) (firstSettled (length ps) entries))"
    for w entries
    by (rule settle_recording_run)
  have units: "map ((\<lambda>t. ()) \<circ> f) [0..<length ps] = map (\<lambda>p. ()) ps" for f :: "nat \<Rightarrow> task"
    by (intro nth_equalityI) simp_all
  have "copy P (recording matches) schedule src dest opt calls =
      (Inr (map (\<lambda>p. ()) ps),
       calls @ Glob (source src) (cwd opt) #
       map (\<lambda>p. Mkdir (path_dirname P (dst_of p))) ps @
       map (\<lambda>i. CopyFile (src_of (ps ! i)) (dst_of (ps ! i)))
         (firstSettled (length ps) (complete (length ps) schedule)))"
    unfolding copy_def Let_def rn_def [symmetric] par_def [symmetric]
    by (simp add: assms(1) valid recording_simps destination ps_def [symmetric] started run units
          Promise_all_def del: upt.simps split del: if_split)
  then show ?thesis
    unfolding Let_def root_def rn_def par_def dst_of_def src_of_def ps_def .
qed

lemma posix_examples:
  "posix_dirname ''a/b.txt'' = ''a''"
  "posix_dirname ''a/c.txt'' = ''a''"
  "posix_basename ''a/b.txt'' = ''b.txt''"
  "posix_basename ''a/c.txt'' = ''c.txt''"
  "toUpperCase ''b.txt'' = ''B.TXT''"
  "toUpperCase ''c.txt'' = ''C.TXT''"
  "posix_join [''out'', ''a'', ''B.TXT''] = ''out/a/B.TXT''"
  "posix_join [''out'', ''a'', ''C.TXT''] = ''out/a/C.TXT''"
  "posix_join [''out'', ''B.TXT''] = ''out/B.TXT''"
  "posix_join [''out'', ''C.TXT''] = ''out/C.TXT''"
  "posix_dirname ''out/a/B.TXT'' = ''out/a''"
  "posix_dirname ''out/a/C.TXT'' = ''out/a''"
  "posix_dirname ''out/B.TXT'' = ''out''"
  "posix_dirname ''out/C.TXT'' = ''out''"
  "posix_join [''proj'', ''.env''] = ''proj/.env''"
  by code_simp+

lemma firstSettled_examples:
  "firstSettled (Suc (Suc 0)) (complete (Suc (Suc 0)) []) = [0, Suc 0]"
  "firstSettled (Suc (Suc 0)) (complete (Suc (Suc 0)) [Suc 0, 0, Suc 0]) = [Suc 0, 0]"
  by (simp_all add: firstSettled_def complete_def upt_rec)

subsection \<open>Validation of the arguments\<close>

text \<open>
  Claim C3. When the normalized sequence of source patterns is empty, or the
  destination is undefined or the empty string, \<^verbatim>\<open>copy\<close> fails with the \<^verbatim>\<open>TypeError\<close>
  "`src` and `dest` are required" (the invalid argument of the specification), and it
  does so before any call of the system: whatever the path module, the system and the
  schedule are, the world after the call is the world before it, so no pattern was
  expanded, no directory created and no file copied.
\<close>

theorem copy_invalid_argument:
  assumes "source src = [] \<or> dest = None \<or> dest = Some ''''"
  shows "copy P S schedule src dest opt w = (Inl (TypeError ''`src` and `dest` are required''), w)"
  using assms by (auto simp add: copy_def truthy_def Let_def)

theorem copy_invalid_argument_witness:
  "copy (posix ''/home/u'') (recording (\<lambda>patterns dir. [''a.txt''])) [] (Patterns [''*.txt'']) (Some '''')
        \<lparr>cwd = None, rename = None, parents = None\<rparr> []
     = (Inl (TypeError ''`src` and `dest` are required''), [])
   \<and> copy (posix ''/home/u'') (recording (\<lambda>patterns dir. [''a.txt''])) [] (Patterns []) (Some ''out'')
        \<lparr>cwd = None, rename = None, parents = None\<rparr> []
     = (Inl (TypeError ''`src` and `dest` are required''), [])"
  using copy_invalid_argument
      [where src = "Patterns [''*.txt'']" and dest = "Some ''''" and P = "posix ''/home/u''"
         and S = "recording (\<lambda>patterns dir. [''a.txt''])" and schedule = "[]"
         and opt = "\<lparr>cwd = None, rename = None, parents = None\<rparr>" and w = "[]"]
    copy_invalid_argument
      [where src = "Patterns []" and dest = "Some ''out''" and P = "posix ''/home/u''"
         and S = "recording (\<lambda>patterns dir. [''a.txt''])" and schedule = "[]"
         and opt = "\<lparr>cwd = None, rename = None, parents = None\<rparr>" and w = "[]"]
  by (simp add: source_def)

subsection \<open>Destination paths\<close>

text \<open>
  Claim C4. For valid arguments and a system in which every call succeeds, under every
  schedule: \<^verbatim>\<open>copy\<close> expands the patterns, calls \<^verbatim>\<open>mkdir\<close> on the directory of the destination
  path of every matched path, in the order of the matches, and then calls \<^verbatim>\<open>copyFile\<close>
  from every matched path to its destination path, in the order in which the schedule
  lets the tasks go on, each task once. So for every matched path \<open>p\<close> the directory
  of its destination path is created and \<open>p\<close> is copied to its destination path. The
  destination path is the destination root joined with the directory of \<open>p\<close> and the
  renamed base name of \<open>p\<close> when \<^verbatim>\<open>parents\<close> is not set or true, and the destination
  root joined with the renamed base name alone when \<^verbatim>\<open>parents\<close> is false. The rename
  function (the identity when not set) is applied to the base name of \<open>p\<close> and to
  nothing else. The destination root is the destination, resolved against \<^verbatim>\<open>cwd\<close> when
  one is given.
\<close>

theorem copy_destination_paths:
  assumes "source src \<noteq> []" and "dest = Some d" and "d \<noteq> ''''"
  shows
    "(let root = (if truthy (cwd opt) then path_resolve P [the (cwd opt), d] else d);
          renamed = (\<lambda>p. (case rename opt of
                             None \<Rightarrow> path_basename P p
                           | Some f \<Rightarrow> f (path_basename P p)));
          to = (\<lambda>p. if parents opt = None \<or> parents opt = Some True
                       then path_join P [root, path_dirname P p, renamed p]
                       else path_join P [root, renamed p]);
          from = (\<lambda>p. if truthy (cwd opt) then path_resolve P [the (cwd opt), p] else p);
          sourceFiles = matches (source src) (cwd opt);
          order = firstSettled (length sourceFiles) (complete (length sourceFiles) schedule);
          result = copy P (recording matches) schedule src dest opt calls
      in result =
           (Inr (map (\<lambda>p. ()) sourceFiles),
            calls @ Glob (source src) (cwd opt) #
            map (\<lambda>p. Mkdir (path_dirname P (to p))) sourceFiles @
            map (\<lambda>i. CopyFile (from (sourceFiles ! i)) (to (sourceFiles ! i))) order)
         \<and> distinct order \<and> set order = {..<length sourceFiles}
         \<and> (\<forall>p \<in> set sourceFiles.
               Mkdir (path_dirname P (to p)) \<in> set (snd result)
               \<and> CopyFile (from p) (to p) \<in> set (snd result)))"
proof -
  define root where "root = (if truthy (cwd opt) then path_resolve P [the (cwd opt), d] else d)"
  define renamed where "renamed = (\<lambda>p. (case rename opt of
      None \<Rightarrow> path_basename P p | Some f \<Rightarrow> f (path_basename P p)))"
  define dst_of where "dst_of = (\<lambda>p. if parents opt = None \<or> parents opt = Some True
      then path_join P [root, path_dirname P p, renamed p] else path_join P [root, renamed p])"
  define src_of where "src_of = (\<lambda>p. if truthy (cwd opt) then path_resolve P [the (cwd opt), p] else p)"
  define ps where "ps = matches (source src) (cwd opt)"
  define order where "order = firstSettled (length ps) (complete (length ps) schedule)"
  define result where "result = copy P (recording matches) schedule src dest opt calls"
  have rn: "(case rename opt of None \<Rightarrow> identity | Some f \<Rightarrow> f) (path_basename P p) = renamed p" for p
    by (cases "rename opt") (simp_all add: renamed_def identity_def)
  have par: "(case parents opt of None \<Rightarrow> True | Some b \<Rightarrow> b) \<longleftrightarrow>
      parents opt = None \<or> parents opt = Some True"
    by (cases "parents opt") simp_all
  have run: "result =
      (Inr (map (\<lambda>p. ()) ps),
       calls @ Glob (source src) (cwd opt) #
       map (\<lambda>p. Mkdir (path_dirname P (dst_of p))) ps @
       map (\<lambda>i. CopyFile (src_of (ps ! i)) (dst_of (ps ! i))) order)"
    using copy_recording_run [OF assms, of P matches schedule opt calls]
    unfolding Let_def rn par
    by (simp only: result_def root_def dst_of_def src_of_def ps_def order_def)
  have perm: "distinct order" "set order = {..<length ps}"
    by (simp_all add: order_def distinct_firstSettled set_firstSettled_complete)
  have each: "Mkdir (path_dirname P (dst_of p)) \<in> set (snd result)
      \<and> CopyFile (src_of p) (dst_of p) \<in> set (snd result)" if "p \<in> set ps" for p
  proof -
    from that obtain i where i: "i < length ps" "p = ps ! i"
      by (auto simp add: in_set_conv_nth)
    with perm(2) have "i \<in> set order" by simp
    then have "CopyFile (src_of (ps ! i)) (dst_of (ps ! i)) \<in>
        set (map (\<lambda>i. CopyFile (src_of (ps ! i)) (dst_of (ps ! i))) order)"
      by (rule imageI [of i "set order", folded set_map])
    with that i show ?thesis
      by (simp add: run)
  qed
  from run perm each show ?thesis
    unfolding Let_def root_def renamed_def dst_of_def src_of_def ps_def order_def result_def
    by blast
qed

theorem copy_destination_paths_witness:
  "copy (posix ''/home/u'') (recording (\<lambda>patterns dir. [''a/b.txt'', ''a/c.txt''])) [1, 0, 1]
        (Pattern ''**'') (Some ''out'')
        \<lparr>cwd = None, rename = Some toUpperCase, parents = None\<rparr> []
     = (Inr [(), ()],
        [Glob [''**''] None,
         Mkdir ''out/a'', Mkdir ''out/a'',
         CopyFile ''a/c.txt'' ''out/a/C.TXT'', CopyFile ''a/b.txt'' ''out/a/B.TXT''])
   \<and> copy (posix ''/home/u'') (recording (\<lambda>patterns dir. [''a/b.txt'', ''a/c.txt''])) []
        (Pattern ''**'') (Some ''out'')
        \<lparr>cwd = None, rename = Some toUpperCase, parents = Some False\<rparr> []
     = (Inr [(), ()],
        [Glob [''**''] None,
         Mkdir ''out'', Mkdir ''out'',
         CopyFile ''a/b.txt'' ''out/B.TXT'', CopyFile ''a/c.txt'' ''out/C.TXT''])"
  using copy_destination_paths
      [where src = "Pattern ''**''" and dest = "Some ''out''" and d = "''out''"
         and P = "posix ''/home/u''"
         and matches = "\<lambda>patterns dir. [''a/b.txt'', ''a/c.txt'']"
         and schedule = "[1, 0, 1]"
         and opt = "\<lparr>cwd = None, rename = Some toUpperCase, parents = None\<rparr>"
         and calls = "[]"]
    copy_destination_paths
      [where src = "Pattern ''**''" and dest = "Some ''out''" and d = "''out''"
         and P = "posix ''/home/u''"
         and matches = "\<lambda>patterns dir. [''a/b.txt'', ''a/c.txt'']"
         and schedule = "[]"
         and opt = "\<lparr>cwd = None, rename = Some toUpperCase, parents = Some False\<rparr>"
         and calls = "[]"]
  by (simp add: source_def truthy_def posix_def posix_examples firstSettled_examples Let_def)


section \<open>Properties of the backend variables\<close>

lemma backend_envVars_first:
  "backend_envVars toString opts =
     \<lparr>name = Some ''MODEL'', description = Some ''The name of LLM model to use.'',
      value = Some (orElse (model opts) ''gpt-3.5-turbo'')\<rparr> # tl (backend_envVars toString opts)"
  by (simp add: backend_envVars_def backend_defaultEnvs_def)

lemma createBackendEnvFile_recording:
  "createBackendEnvFile P (recording matches) toString root opts calls =
     (Inr (),
      calls @
      [WriteFile (path_join P [root, ''.env'']) (renderEnvVar (backend_envVars toString opts)),
       ConsoleLog ''Created '.env' file. Please check the settings.''])"
  by (simp add: createBackendEnvFile_def recording_simps Let_def)

subsection \<open>The variables of the vector database\<close>

text \<open>
  Claim C7. The mapping from the identifier of the vector database to its descriptors
  is a closed enumeration: \<^verbatim>\<open>mongo\<close>, \<^verbatim>\<open>pg\<close>, \<^verbatim>\<open>pinecone\<close> and \<^verbatim>\<open>milvus\<close> each have their
  fixed list of variables, and every other identifier has the empty list, which is a
  result and not an error. The empty list is the result for no other identifier.
\<close>

theorem getVectorDBEnvs_closed_enumeration:
  "map name (getVectorDBEnvs ''mongo'') =
     [Some ''MONGO_URI'', Some ''MONGODB_DATABASE'', Some ''MONGODB_VECTORS'',
      Some ''MONGODB_VECTOR_INDEX'']
   \<and> map name (getVectorDBEnvs ''pg'') = [Some ''PG_CONNECTION_STRING'']
   \<and> map name (getVectorDBEnvs ''pinecone'') =
     [Some ''PINECONE_API_KEY'', Some ''PINECONE_ENVIRONMENT'', Some ''PINECONE_INDEX_NAME'']
   \<and> map name (getVectorDBEnvs ''milvus'') =
     [Some ''MILVUS_ADDRESS'', Some ''MILVUS_COLLECTION'', Some ''MILVUS_USERNAME'',
      Some ''MILVUS_PASSWORD'']
   \<and> (v \<notin> {''mongo'', ''pg'', ''pinecone'', ''milvus''} \<longrightarrow> getVectorDBEnvs v = [])
   \<and> (getVectorDBEnvs v = [] \<longrightarrow> v \<notin> {''mongo'', ''pg'', ''pinecone'', ''milvus''})"
  by (simp add: getVectorDBEnvs_def)

theorem getVectorDBEnvs_closed_enumeration_witness:
  "getVectorDBEnvs ''chroma'' = [] \<and> getVectorDBEnvs ''none'' = [] \<and> getVectorDBEnvs ''Mongo'' = []
   \<and> getVectorDBEnvs ''pg'' \<noteq> []"
  using getVectorDBEnvs_closed_enumeration [of "''chroma''"]
    getVectorDBEnvs_closed_enumeration [of "''none''"]
    getVectorDBEnvs_closed_enumeration [of "''Mongo''"]
    getVectorDBEnvs_closed_enumeration [of "''pg''"]
  by simp

subsection \<open>The default of the model name\<close>

text \<open>
  Claim C8. When the options of \<^verbatim>\<open>createBackendEnvFile\<close> have no model name (or the empty
  one), the first descriptor is \<^verbatim>\<open>MODEL\<close> with the value \<^verbatim>\<open>gpt-3.5-turbo\<close>, whatever the
  other options are; the rendered content begins with the comment of that descriptor
  and the line \<^verbatim>\<open>MODEL=gpt-3.5-turbo\<close>, followed by an empty line; and that content is
  what is written to \<^verbatim>\<open>.env\<close> under the root.
\<close>

theorem createBackendEnvFile_model_default:
  assumes "model opts = None \<or> model opts = Some ''''"
  shows "hd (backend_envVars toString opts) =
           \<lparr>name = Some ''MODEL'', description = Some ''The name of LLM model to use.'',
            value = Some ''gpt-3.5-turbo''\<rparr>
       \<and> renderEnvVar (backend_envVars toString opts) =
           ''# The name of LLM model to use.\<newline>MODEL=gpt-3.5-turbo\<newline>\<newline>'' @
           renderEnvVar (tl (backend_envVars toString opts))
       \<and> createBackendEnvFile P (recording matches) toString root opts calls =
           (Inr (),
            calls @
            [WriteFile (path_join P [root, ''.env''])
               (''# The name of LLM model to use.\<newline>MODEL=gpt-3.5-turbo\<newline>\<newline>'' @
                renderEnvVar (tl (backend_envVars toString opts))),
             ConsoleLog ''Created '.env' file. Please check the settings.''])"
proof -
  from assms have "orElse (model opts) ''gpt-3.5-turbo'' = ''gpt-3.5-turbo''"
    by (auto simp add: orElse_def)
  then have first: "backend_envVars toString opts =
      \<lparr>name = Some ''MODEL'', description = Some ''The name of LLM model to use.'',
       value = Some ''gpt-3.5-turbo''\<rparr> # tl (backend_envVars toString opts)"
    using backend_envVars_first [of toString opts] by simp
  have "renderEnvVar (\<lparr>name = Some ''MODEL'', description = Some ''The name of LLM model to use.'',
       value = Some ''gpt-3.5-turbo''\<rparr> # tl (backend_envVars toString opts)) =
      ''# The name of LLM model to use.\<newline>MODEL=gpt-3.5-turbo\<newline>\<newline>'' @
      renderEnvVar (tl (backend_envVars toString opts))"
    by (simp add: renderEnvVar_Cons renderStep_def truthy_def)
  with first have content: "renderEnvVar (backend_envVars toString opts) =
      ''# The name of LLM model to use.\<newline>MODEL=gpt-3.5-turbo\<newline>\<newline>'' @
      renderEnvVar (tl (backend_envVars toString opts))"
    by simp
  from first have "hd (backend_envVars toString opts) =
      \<lparr>name = Some ''MODEL'', description = Some ''The name of LLM model to use.'',
       value = Some ''gpt-3.5-turbo''\<rparr>"
    by (metis list.sel(1))
  with content show ?thesis
    by (simp only: createBackendEnvFile_recording simp_thms)
qed

theorem createBackendEnvFile_model_default_witness:
  "createBackendEnvFile (posix ''/home/u'') (recording (\<lambda>patterns dir. [])) portToString ''proj''
     \<lparr>openAiKey = Some ''sk-1'', llamaCloudKey = None, vectorDb = None, model = None,
      embeddingModel = None, framework = Some ''nextjs'', dataSources = (None :: unit list option),
      port = (None :: 16 word option)\<rparr> []
   = (Inr (),
      [WriteFile ''proj/.env''
         ''# The name of LLM model to use.\<newline>MODEL=gpt-3.5-turbo\<newline>\<newline># The T-Systems API key to use.\<newline>TSI_API_KEY=sk-1\<newline>\<newline># The T-Systems API base URL.\<newline>TSI_API_BASE_URL=https://llm-server.llmhub.t-systems.net/v2\<newline>\<newline># The T-Systems embedding API base URL.\<newline>TSI_EMBED_API_BASE_URL=https://llm-server.llmhub.t-systems.net/v2\<newline>\<newline># The Llama Cloud API key.\<newline># LLAMA_CLOUD_API_KEY=\<newline>\<newline># The LLM model to use (hardcode to front-end artifact).\<newline>NEXT_PUBLIC_MODEL=gpt-3.5-turbo\<newline>\<newline>'',
       ConsoleLog ''Created '.env' file. Please check the settings.''])"
  using createBackendEnvFile_model_default
    [where opts = "\<lparr>openAiKey = Some ''sk-1'', llamaCloudKey = None, vectorDb = None, model = None,
        embeddingModel = None, framework = Some ''nextjs'',
        dataSources = (None :: unit list option), port = (None :: 16 word option)\<rparr>"
       and P = "posix ''/home/u''" and matches = "\<lambda>patterns dir. []"
       and toString = portToString and root = "''proj''"
       and calls = "[]"]
  by (simp add: posix_def posix_examples backend_envVars_def backend_defaultEnvs_def orElse_def
        truthy_def renderEnvVar_def renderStep_def)

subsection \<open>Frameworks without variables of their own\<close>

text \<open>
  Claim C10. For every framework selector other than \<^verbatim>\<open>fastapi\<close> and \<^verbatim>\<open>nextjs\<close>, an
  absent one included, the variables are the default descriptors followed by one
  descriptor without name, description and value. That descriptor renders to nothing,
  so the content written to \<^verbatim>\<open>.env\<close> is the rendering of the default descriptors: the
  five fixed variables, then the block of the vector database when one is selected,
  and no variable of a framework.
\<close>

theorem createBackendEnvFile_other_framework:
  assumes "framework opts \<noteq> Some ''fastapi''" and "framework opts \<noteq> Some ''nextjs''"
  shows "backend_envVars toString opts =
           backend_defaultEnvs opts @ [\<lparr>name = None, description = None, value = None\<rparr>]
       \<and> renderEnvVar [\<lparr>name = None, description = None, value = None\<rparr>] = ''''
       \<and> renderEnvVar (backend_envVars toString opts) = renderEnvVar (backend_defaultEnvs opts)
       \<and> map name (take 5 (backend_defaultEnvs opts)) =
           [Some ''MODEL'', Some ''TSI_API_KEY'', Some ''TSI_API_BASE_URL'',
            Some ''TSI_EMBED_API_BASE_URL'', Some ''LLAMA_CLOUD_API_KEY'']
       \<and> drop 5 (backend_defaultEnvs opts) =
           (if truthy (vectorDb opts) then getVectorDBEnvs (the (vectorDb opts)) else [])
       \<and> createBackendEnvFile P (recording matches) toString root opts calls =
           (Inr (),
            calls @
            [WriteFile (path_join P [root, ''.env''])
               (renderEnvVar (take 5 (backend_defaultEnvs opts)) @
                renderEnvVar (if truthy (vectorDb opts) then getVectorDBEnvs (the (vectorDb opts)) else [])),
             ConsoleLog ''Created '.env' file. Please check the settings.''])"
proof -
  have vars: "backend_envVars toString opts =
      backend_defaultEnvs opts @ [\<lparr>name = None, description = None, value = None\<rparr>]"
    using assms by (simp add: backend_envVars_def)
  have blank: "renderEnvVar [\<lparr>name = None, description = None, value = None\<rparr>] = ''''"
    by (simp add: renderEnvVar_single renderStep_nameless)
  have same: "renderEnvVar (backend_envVars toString opts) = renderEnvVar (backend_defaultEnvs opts)"
    by (simp add: vars renderEnvVar_append blank)
  have names: "map name (take 5 (backend_defaultEnvs opts)) =
      [Some ''MODEL'', Some ''TSI_API_KEY'', Some ''TSI_API_BASE_URL'',
       Some ''TSI_EMBED_API_BASE_URL'', Some ''LLAMA_CLOUD_API_KEY'']"
    by (simp add: backend_defaultEnvs_def)
  have block: "drop 5 (backend_defaultEnvs opts) =
      (if truthy (vectorDb opts) then getVectorDBEnvs (the (vectorDb opts)) else [])"
    by (simp add: backend_defaultEnvs_def)
  have "renderEnvVar (backend_defaultEnvs opts) =
      renderEnvVar (take 5 (backend_defaultEnvs opts)) @ renderEnvVar (drop 5 (backend_defaultEnvs opts))"
    using renderEnvVar_append [of "take 5 (backend_defaultEnvs opts)" "drop 5 (backend_defaultEnvs opts)"]
    by simp
  with block same have content: "renderEnvVar (backend_envVars toString opts) =
      renderEnvVar (take 5 (backend_defaultEnvs opts)) @
      renderEnvVar (if truthy (vectorDb opts) then getVectorDBEnvs (the (vectorDb opts)) else [])"
    by simp
  from vars blank same names block content show ?thesis
    by (simp only: createBackendEnvFile_recording simp_thms)
qed

theorem createBackendEnvFile_other_framework_witness:
  "createBackendEnvFile (posix ''/home/u'') (recording (\<lambda>patterns dir. [])) portToString ''proj''
     \<lparr>openAiKey = None, llamaCloudKey = None, vectorDb = Some ''pg'', model = Some ''llama-3'',
      embeddingModel = None, framework = Some ''express'', dataSources = (None :: unit list option),
      port = Some 3000\<rparr> []
   = (Inr (),
      [WriteFile ''proj/.env''
         ''# The name of LLM model to use.\<newline>MODEL=llama-3\<newline>\<newline># The T-Systems API key to use.\<newline># TSI_API_KEY=\<newline>\<newline># The T-Systems API base URL.\<newline>TSI_API_BASE_URL=https://llm-server.llmhub.t-systems.net/v2\<newline>\<newline># The T-Systems embedding API base URL.\<newline>TSI_EMBED_API_BASE_URL=https://llm-server.llmhub.t-systems.net/v2\<newline>\<newline># The Llama Cloud API key.\<newline># LLAMA_CLOUD_API_KEY=\<newline>\<newline># For generating a connection URI, see https://docs.timescale.com/use-timescale/latest/services/create-a-service\<newline># The PostgreSQL connection string.\<newline># PG_CONNECTION_STRING=\<newline>\<newline>'',
       ConsoleLog ''Created '.env' file. Please check the settings.''])"
  using createBackendEnvFile_other_framework
    [where opts = "\<lparr>openAiKey = None, llamaCloudKey = None, vectorDb = Some ''pg'',
        model = Some ''llama-3'', embeddingModel = None, framework = Some ''express'',
        dataSources = (None :: unit list option), port = Some 3000\<rparr>"
       and P = "posix ''/home/u''" and matches = "\<lambda>patterns dir. []"
       and toString = portToString and root = "''proj''"
       and calls = "[]"]
  by (simp add: posix_def posix_examples backend_defaultEnvs_def getVectorDBEnvs_def orElse_def
        truthy_def renderEnvVar_def renderStep_def)

end
